theory Spec2Isabelle
  imports Complex_Main "HOL-Library.Multiset" "HOL-Library.Char_ord" "HOL-Library.List_Lexorder"
begin

section \<open>The Workers tracing SDK (sdk.ts)\<close>

text \<open>
  The theory embeds \<^verbatim>\<open>WorkersSDK.getSpan\<close>, \<^verbatim>\<open>WorkersSDK.start\<close> and the three methods of
  \<^verbatim>\<open>WorkerInstance\<close>. Errors are values of a sum type, the mutable objects (span, instance,
  console, network, execution context) are records that every operation returns updated,
  the regular expressions of the allow-lists live in a store that every operation
  calling \<^verbatim>\<open>test\<close> returns updated, and each reading of \<^verbatim>\<open>Date.now()\<close> is an argument, a
  whole number of milliseconds.
\<close>

subsection \<open>Platform values: strings, numbers, headers, URLs\<close>

text \<open>
  Header names are ASCII, so \<^verbatim>\<open>String.prototype.toLowerCase\<close> acts on them as the byte-wise
  lower-casing that the platform's \<^verbatim>\<open>Headers\<close> class applies to names.
\<close>

definition lower_char :: "char \<Rightarrow> char" where
  "lower_char c =
     (let n = (of_char c :: nat) in if 65 \<le> n \<and> n \<le> 90 then char_of (n + 32) else c)"

definition toLowerCase :: "string \<Rightarrow> string" where
  "toLowerCase s = map lower_char s"

text \<open>
  \<^verbatim>\<open>Number::toString\<close> inside a template literal, for the whole numbers below \<open>10^21\<close>
  (every epoch-millisecond value is one): the decimal digits.
\<close>

definition digit_char :: "nat \<Rightarrow> char" where
  "digit_char d = ''0123456789'' ! d"

fun number_to_string :: "nat \<Rightarrow> string" where
  "number_to_string n =
     (if n < 10 then [digit_char n] else number_to_string (n div 10) @ [digit_char (n mod 10)])"

declare number_to_string.simps [simp del]

text \<open>
  A \<^verbatim>\<open>Headers\<close> object is its header list, the name/value pairs in the order they were
  appended. \<^verbatim>\<open>keys()\<close> iterates the names lower-cased, sorted and without duplicates;
  \<^verbatim>\<open>get(name)\<close> compares names without regard to case, joins the values of all matching
  pairs with a comma and a space, and is \<^verbatim>\<open>null\<close> (\<open>None\<close>) when no pair matches.
  (Where a platform iterates \<^verbatim>\<open>set-cookie\<close> once for each of its values, the loops below
  meet that name again and do again what they did at first.) Values are taken as the
  class holds them, without leading or trailing white space.
\<close>

datatype Headers = Headers "(string \<times> string) list"

fun join_values :: "string list \<Rightarrow> string" where
  "join_values [] = []"
| "join_values [v] = v"
| "join_values (v # w # vs) = v @ '', '' @ join_values (w # vs)"

fun headers_keys :: "Headers \<Rightarrow> string list" where
  "headers_keys (Headers hl) = sort (remdups (map (\<lambda>(k, v). toLowerCase k) hl))"

fun headers_get :: "Headers \<Rightarrow> string \<Rightarrow> string option" where
  "headers_get (Headers hl) n =
     (let vs = map snd (filter (\<lambda>(k, v). toLowerCase k = toLowerCase n) hl)
      in if vs = [] then None else Some (join_values vs))"

text \<open>
  The fields of a parsed \<^verbatim>\<open>URL\<close> that the SDK reads; \<open>searchParams\<close> is the decoded list
  of query pairs in the order of the query string. The parser itself is a parameter of
  the model, \<open>parseURL\<close>: \<open>None\<close> stands for the \<^verbatim>\<open>TypeError\<close> of \<^verbatim>\<open>new URL\<close>.
\<close>

record URL =
  pathname :: string
  searchParams :: "(string \<times> string) list"
  host :: string
  hostname :: string
  port :: string
  protocol :: string

text \<open>
  \<^verbatim>\<open>URLSearchParams.prototype.toString\<close>: the application/x-www-form-urlencoded serializer.
  Letters, digits and \<^verbatim>\<open>* - . _\<close> stay, a space becomes \<^verbatim>\<open>+\<close>, every other byte is
  percent-encoded with upper-case hexadecimal digits; pairs are written \<^verbatim>\<open>name=value\<close>
  and joined by \<^verbatim>\<open>&\<close>.
\<close>

definition hex_char :: "nat \<Rightarrow> char" where
  "hex_char d = ''0123456789ABCDEF'' ! d"

definition form_safe :: "char \<Rightarrow> bool" where
  "form_safe c =
     (let n = (of_char c :: nat)
      in (48 \<le> n \<and> n \<le> 57) \<or> (65 \<le> n \<and> n \<le> 90) \<or> (97 \<le> n \<and> n \<le> 122)
         \<or> n = 42 \<or> n = 45 \<or> n = 46 \<or> n = 95)"

definition form_encode_char :: "char \<Rightarrow> string" where
  "form_encode_char c =
     (if c = CHR '' '' then ''+''
      else if form_safe c then [c]
      else [CHR ''%'', hex_char (of_char c div 16), hex_char (of_char c mod 16)])"

definition form_encode :: "string \<Rightarrow> string" where
  "form_encode s = concat (map form_encode_char s)"

fun serialize :: "(string \<times> string) list \<Rightarrow> string" where
  "serialize [] = []"
| "serialize [(k, v)] = form_encode k @ ''='' @ form_encode v"
| "serialize ((k, v) # p # ps) = form_encode k @ ''='' @ form_encode v @ ''&'' @ serialize (p # ps)"

subsection \<open>Triggers, allow-lists and the SDK object\<close>

record http_message =
  headers :: Headers

record Request = http_message +
  "method" :: string
  url :: string

record Response = http_message +
  status :: nat

record ScheduledEvent =
  cron :: "string option"
  scheduledTime :: nat

text \<open>
  The argument of \<^verbatim>\<open>start\<close> and \<^verbatim>\<open>getSpan\<close>. A scheduled event carries the field \<^verbatim>\<open>type\<close>,
  a request does not; \<open>Absent\<close> is \<^verbatim>\<open>null\<close> or \<^verbatim>\<open>undefined\<close>, which the guard of
  \<^verbatim>\<open>getSpan\<close> foresees.
\<close>

datatype Trigger =
    Absent
  | Scheduled (as_ScheduledEvent: ScheduledEvent)
  | Fetch (as_Request: Request)

text \<open>
  A \<^verbatim>\<open>RegExp\<close> object: \<open>exec_from i s\<close> is the end index of the match that the expression
  finds in \<open>s\<close> when matching starts at index \<open>i\<close> (at \<open>i\<close> itself under the \<^verbatim>\<open>y\<close> flag),
  \<open>None\<close> when it finds none; the two flags that make \<^verbatim>\<open>test\<close> depend on \<^verbatim>\<open>lastIndex\<close>;
  and \<^verbatim>\<open>lastIndex\<close>, the one field that \<^verbatim>\<open>test\<close> writes. The objects live in a store, by
  reference, so that one expression named twice in the allow-lists is one object.
\<close>

record RegExp =
  exec_from :: "nat \<Rightarrow> string \<Rightarrow> nat option"
  flag_g :: bool
  flag_y :: bool
  lastIndex :: nat

type_synonym regexps = "nat \<Rightarrow> RegExp"

text \<open>
  \<^verbatim>\<open>RegExp.prototype.test\<close>, of the object at reference \<open>a\<close>. With the \<^verbatim>\<open>g\<close> or the \<^verbatim>\<open>y\<close> flag
  matching starts at \<^verbatim>\<open>lastIndex\<close>: a failure (also when \<^verbatim>\<open>lastIndex\<close> is beyond the end of
  the string) answers false and resets \<^verbatim>\<open>lastIndex\<close> to 0, a success answers true and moves
  \<^verbatim>\<open>lastIndex\<close> to the end of the match. Without the two flags matching starts at 0 and
  the object is left as it is. (Header names and the keys of the examples are ASCII,
  where an index into the string counts the same in bytes and in code units.)
\<close>

definition test :: "nat \<Rightarrow> string \<Rightarrow> regexps \<Rightarrow> bool \<times> regexps" where
  "test a key h =
     (let r = h a
      in if flag_g r \<or> flag_y r then
           (case (if length key < lastIndex r then None else exec_from r (lastIndex r) key) of
              None \<Rightarrow> (False, h(a := r\<lparr>lastIndex := 0\<rparr>))
            | Some e \<Rightarrow> (True, h(a := r\<lparr>lastIndex := e\<rparr>)))
         else (exec_from r 0 key \<noteq> None, h))"

text \<open>An allow-list entry is a string or a reference to a \<^verbatim>\<open>RegExp\<close> object.\<close>

datatype allow_entry = Exact string | Pattern nat

datatype allowed_search = OneRegExp nat | EntryArray "allow_entry list"

record WorkersSDK =
  allowedHeaders :: "allow_entry list"
  allowedSearch :: allowed_search

text \<open>The field initialisers of the class: \<^verbatim>\<open>['user-agent', 'cf-ray']\<close> and \<^verbatim>\<open>/.*/\<close>.\<close>

definition default_sdk :: WorkersSDK where
  "default_sdk =
     \<lparr>allowedHeaders = [Exact ''user-agent'', Exact ''cf-ray''],
      allowedSearch = OneRegExp 0\<rparr>"

text \<open>
  The store of a fresh SDK: at reference 0 the expression \<^verbatim>\<open>/.*/\<close>, which matches at any
  index up to the end of the line.
\<close>

definition default_regexps :: regexps where
  "default_regexps =
     (\<lambda>a. \<lparr>exec_from = (\<lambda>i s. Some (i + length (takeWhile (\<lambda>c. c \<noteq> CHR 0x0A \<and> c \<noteq> CHR 0x0D) (drop i s)))),
            flag_g = False, flag_y = False, lastIndex = 0\<rparr>)"

datatype error =
    InputRequiredError
  | TypeError_in_operator
  | TypeError_invalid_URL

subsection \<open>Spans\<close>

datatype SpanKind = INTERNAL | SERVER | CLIENT | PRODUCER | CONSUMER

datatype attr_value = Str string | Num nat | Null | Arr "attr_value list"

text \<open>
  The span of the tracing library, as far as the SDK drives it: the name and options
  given to \<^verbatim>\<open>startSpan\<close>, for each attribute key the value of the last
  \<^verbatim>\<open>setAttribute\<close> call, the recorded exceptions, and the times given to \<^verbatim>\<open>end\<close>, in
  call order.
\<close>

record Span =
  name :: string
  kind :: SpanKind
  is_root :: bool
  start_time :: nat
  attributes :: "string \<rightharpoonup> attr_value"
  exceptions :: "string list"
  end_times :: "rat list"

definition startSpan :: "string \<Rightarrow> SpanKind \<Rightarrow> bool \<Rightarrow> nat \<Rightarrow> Span" where
  "startSpan n k r t =
     \<lparr>name = n, kind = k, is_root = r, start_time = t, attributes = Map.empty,
      exceptions = [], end_times = []\<rparr>"

definition setAttribute :: "string \<Rightarrow> attr_value \<Rightarrow> Span \<Rightarrow> Span" where
  "setAttribute k v s = s\<lparr>attributes := (attributes s)(k \<mapsto> v)\<rparr>"

definition recordException :: "string \<Rightarrow> Span \<Rightarrow> Span" where
  "recordException ex s = s\<lparr>exceptions := exceptions s @ [ex]\<rparr>"

definition span_end :: "rat \<Rightarrow> Span \<Rightarrow> Span" where
  "span_end t s = s\<lparr>end_times := end_times s @ [t]\<rparr>"

definition of_nullable :: "string option \<Rightarrow> attr_value" where
  "of_nullable v = (case v of None \<Rightarrow> Null | Some s \<Rightarrow> Str s)"

text \<open>The keys of \<^verbatim>\<open>SemanticAttributes\<close> that the SDK uses.\<close>

definition FAAS_TRIGGER :: string where "FAAS_TRIGGER = ''faas.trigger''"
definition FAAS_TIME :: string where "FAAS_TIME = ''faas.time''"
definition FAAS_CRON :: string where "FAAS_CRON = ''faas.cron''"
definition HTTP_METHOD :: string where "HTTP_METHOD = ''http.method''"
definition HTTP_URL :: string where "HTTP_URL = ''http.url''"
definition HTTP_TARGET :: string where "HTTP_TARGET = ''http.target''"
definition HTTP_HOST :: string where "HTTP_HOST = ''http.host''"
definition NET_HOST_NAME :: string where "NET_HOST_NAME = ''net.host.name''"
definition NET_HOST_PORT :: string where "NET_HOST_PORT = ''net.host.port''"
definition HTTP_SCHEME :: string where "HTTP_SCHEME = ''http.scheme''"
definition HTTP_USER_AGENT :: string where "HTTP_USER_AGENT = ''http.user_agent''"
definition NET_PEER_IP :: string where "NET_PEER_IP = ''net.peer.ip''"
definition HTTP_CLIENT_IP :: string where "HTTP_CLIENT_IP = ''http.client_ip''"
definition HTTP_STATUS_CODE :: string where "HTTP_STATUS_CODE = ''http.status_code''"

subsection \<open>The allow-list test\<close>

text \<open>
  \<^verbatim>\<open>Array.prototype.some\<close> stops at the first entry that answers true; the entries after it
  are not asked. The callback is
  \<^verbatim>\<open>typeof allowed === 'string' ? key === allowed : allowed.test(key)\<close>, the same in
  all three places where the SDK consults an allow-list.
\<close>

fun some :: "('a \<Rightarrow> 's \<Rightarrow> bool \<times> 's) \<Rightarrow> 'a list \<Rightarrow> 's \<Rightarrow> bool \<times> 's" where
  "some p [] h = (False, h)"
| "some p (x # xs) h = (case p x h of (b, h') \<Rightarrow> if b then (True, h') else some p xs h')"

fun matches :: "string \<Rightarrow> allow_entry \<Rightarrow> regexps \<Rightarrow> bool \<times> regexps" where
  "matches key (Exact allowed) h = (key = allowed, h)"
| "matches key (Pattern allowed) h = test allowed key h"

subsection \<open>getSpan\<close>

text \<open>
  \<^verbatim>\<open>'type' in eventOrRequest\<close>: the \<^verbatim>\<open>in\<close> operator throws a \<^verbatim>\<open>TypeError\<close> when its right
  operand is not an object. \<^verbatim>\<open>!eventOrRequest\<close> is true of \<^verbatim>\<open>null\<close> and \<^verbatim>\<open>undefined\<close> and
  false of every object.
\<close>

definition type_in :: "Trigger \<Rightarrow> error + bool" where
  "type_in eventOrRequest =
     (case eventOrRequest of
        Absent \<Rightarrow> Inl TypeError_in_operator
      | Scheduled _ \<Rightarrow> Inr True
      | Fetch _ \<Rightarrow> Inr False)"

definition falsy :: "Trigger \<Rightarrow> bool" where
  "falsy eventOrRequest = (case eventOrRequest of Absent \<Rightarrow> True | _ \<Rightarrow> False)"

text \<open>Lines 82 to 92: the name of the span.\<close>

definition span_name :: "(string \<Rightarrow> URL option) \<Rightarrow> Trigger \<Rightarrow> error + string" where
  "span_name parseURL eventOrRequest =
     (case type_in eventOrRequest of
        Inl e \<Rightarrow> Inl e
      | Inr True \<Rightarrow>
          (let scheduledEvent = as_ScheduledEvent eventOrRequest
           in Inr (''scheduled '' @
                (case cron scheduledEvent of
                   Some c \<Rightarrow> c
                 | None \<Rightarrow> number_to_string (scheduledTime scheduledEvent))))
      | Inr False \<Rightarrow>
          (if falsy eventOrRequest then Inl InputRequiredError
           else (case parseURL (url (as_Request eventOrRequest)) of
                   None \<Rightarrow> Inl TypeError_invalid_URL
                 | Some u \<Rightarrow>
                     Inr (''fetch '' @ method (as_Request eventOrRequest) @ '' '' @ pathname u))))"

text \<open>Line 97: the kind of the span.\<close>

definition span_kind :: "Trigger \<Rightarrow> error + SpanKind" where
  "span_kind eventOrRequest =
     (case type_in eventOrRequest of
        Inl e \<Rightarrow> Inl e
      | Inr has_type \<Rightarrow> Inr (if has_type then SERVER else INTERNAL))"

text \<open>
  Lines 116 to 128: the loop over \<^verbatim>\<open>url.searchParams\<close> that appends the allowed pairs to
  a fresh \<^verbatim>\<open>URLSearchParams\<close>.
\<close>

fun filter_search :: "allowed_search \<Rightarrow> (string \<times> string) list \<Rightarrow> (string \<times> string) list
    \<Rightarrow> regexps \<Rightarrow> (string \<times> string) list \<times> regexps" where
  "filter_search allowed [] kept h = (kept, h)"
| "filter_search allowed ((key, val) # rest) kept h =
     (case (case allowed of
              EntryArray entries \<Rightarrow> some (matches key) entries h
            | OneRegExp r \<Rightarrow> test r key h) of
        (b, h') \<Rightarrow> filter_search allowed rest (if b then kept @ [(key, val)] else kept) h')"

definition target_of :: "allowed_search \<Rightarrow> URL \<Rightarrow> regexps \<Rightarrow> string \<times> regexps" where
  "target_of allowed u h =
     (case filter_search allowed (searchParams u) [] h of
        (kept, h') \<Rightarrow>
          (let search = serialize kept
           in (pathname u @ (if search = [] then [] else ''?'' @ search), h')))"

text \<open>Lines 145 to 160: the loop over the keys of the request headers.\<close>

fun request_header_loop ::
    "allow_entry list \<Rightarrow> Headers \<Rightarrow> string list \<Rightarrow> Span \<Rightarrow> regexps \<Rightarrow> Span \<times> regexps" where
  "request_header_loop allowed hs [] s h = (s, h)"
| "request_header_loop allowed hs (headerKey # ks) s h =
     (if headerKey = ''cookie'' then request_header_loop allowed hs ks s h
      else (case some (matches headerKey) allowed h of
              (b, h') \<Rightarrow>
                if \<not> b then request_header_loop allowed hs ks s h'
                else request_header_loop allowed hs ks
                       (setAttribute (''http.request.header.'' @ toLowerCase headerKey)
                          (Arr [of_nullable (headers_get hs headerKey)]) s) h'))"

definition setAttributes :: "(string \<times> attr_value) list \<Rightarrow> Span \<Rightarrow> Span" where
  "setAttributes kvs s = fold (\<lambda>(k, v). setAttribute k v) kvs s"

text \<open>Lines 105 to 161: the attributes of the span.\<close>

definition span_attributes ::
    "(string \<Rightarrow> URL option) \<Rightarrow> WorkersSDK \<Rightarrow> Trigger \<Rightarrow> Span \<Rightarrow> regexps
      \<Rightarrow> error + Span \<times> regexps" where
  "span_attributes parseURL sdk eventOrRequest s h =
     (case type_in eventOrRequest of
        Inl e \<Rightarrow> Inl e
      | Inr True \<Rightarrow>
          (let scheduledEvent = as_ScheduledEvent eventOrRequest;
               s1 = setAttribute FAAS_TRIGGER (Str ''timer'') s;
               s2 = setAttribute FAAS_TIME (Num (scheduledTime scheduledEvent)) s1
           in Inr (case cron scheduledEvent of
                     None \<Rightarrow> s2
                   | Some c \<Rightarrow> if c \<noteq> [] then setAttribute FAAS_CRON (Str c) s2 else s2, h))
      | Inr False \<Rightarrow>
          (let request = as_Request eventOrRequest
           in case parseURL (url request) of
                None \<Rightarrow> Inl TypeError_invalid_URL
              | Some u \<Rightarrow>
                  (case target_of (allowedSearch sdk) u h of
                     (target, h1) \<Rightarrow>
                       (let s1 = setAttributes
                          [(HTTP_METHOD, Str (method request)),
                           (HTTP_URL, Str (url request)),
                           (HTTP_TARGET, Str target),
                           (HTTP_HOST, Str (host u)),
                           (NET_HOST_NAME, Str (hostname u)),
                           (NET_HOST_PORT, Str (port u)),
                           (HTTP_SCHEME, Str (take (length (protocol u) - 1) (protocol u))),
                           (HTTP_USER_AGENT, of_nullable (headers_get (headers request) ''user-agent'')),
                           (NET_PEER_IP, of_nullable (headers_get (headers request) ''cf-connecting-ip'')),
                           (HTTP_CLIENT_IP, of_nullable (headers_get (headers request) ''cf-connecting-ip''))]
                          s
                        in Inr (request_header_loop (allowedHeaders sdk) (headers request)
                                  (headers_keys (headers request)) s1 h1)))))"

text \<open>
  \<^verbatim>\<open>getSpan\<close>; \<open>now\<close> is the reading of \<^verbatim>\<open>Date.now()\<close> on line 100 and \<open>h\<close> the store of
  regular expressions at the call. The span is a root span in a fresh \<^verbatim>\<open>SimpleContext\<close>.
\<close>

definition getSpan ::
    "(string \<Rightarrow> URL option) \<Rightarrow> WorkersSDK \<Rightarrow> Trigger \<Rightarrow> nat \<Rightarrow> regexps
      \<Rightarrow> error + Span \<times> regexps" where
  "getSpan parseURL sdk eventOrRequest now h =
     (case span_name parseURL eventOrRequest of
        Inl e \<Rightarrow> Inl e
      | Inr n \<Rightarrow>
          (case span_kind eventOrRequest of
             Inl e \<Rightarrow> Inl e
           | Inr k \<Rightarrow> span_attributes parseURL sdk eventOrRequest (startSpan n k True now) h))"

subsection \<open>WorkerInstance\<close>

text \<open>
  The instance owns the span and its two private fields. Its references to the SDK and
  to the execution context are not copied into the record: every method takes the SDK
  object as it is at the time of the call, and the effects on the outside (the console,
  the network, \<^verbatim>\<open>waitUntil\<close>, the flush of the span processor) are logged in \<open>World\<close>.
\<close>

record WorkerInstance =
  span :: Span
  flushed :: bool
  startTime :: nat

record 'q World =
  warnings :: "string list"
  fetched :: "'q list"
  flush_calls :: nat
  waitUntil_calls :: nat

text \<open>
  \<^verbatim>\<open>start\<close>: \<open>t_span\<close> is the reading of the clock inside \<^verbatim>\<open>getSpan\<close>, \<open>t_instance\<close> the
  later one of the field initialiser \<^verbatim>\<open>startTime = Date.now()\<close>.
\<close>

definition start ::
    "(string \<Rightarrow> URL option) \<Rightarrow> WorkersSDK \<Rightarrow> Trigger \<Rightarrow> nat \<Rightarrow> nat \<Rightarrow> regexps
      \<Rightarrow> error + WorkerInstance \<times> regexps" where
  "start parseURL sdk eventOrRequest t_span t_instance h =
     (case getSpan parseURL sdk eventOrRequest t_span h of
        Inl e \<Rightarrow> Inl e
      | Inr (s, h') \<Rightarrow> Inr (\<lparr>span = s, flushed = False, startTime = t_instance\<rparr>, h'))"

definition fetch_warning :: string where
  "fetch_warning = ''Fetch request sent after worker spans were flushed. Avoid using instance.fetch after calling sendResponse or captureException.''"

text \<open>
  \<^verbatim>\<open>fetch\<close>: \<open>q\<close> stands for the two arguments, \<open>globalFetch\<close> for the network primitive
  \<^verbatim>\<open>_globalThis.fetch\<close>. The instance is only read.
\<close>

definition fetch :: "('q \<Rightarrow> 'r) \<Rightarrow> WorkerInstance \<Rightarrow> 'q \<Rightarrow> 'q World \<Rightarrow> 'r \<times> 'q World" where
  "fetch globalFetch inst q w =
     (let w1 = (if flushed inst then w\<lparr>warnings := warnings w @ [fetch_warning]\<rparr> else w)
      in (globalFetch q, w1\<lparr>fetched := fetched w1 @ [q]\<rparr>))"

text \<open>Lines 190 to 205: the loop over the keys of the response headers.\<close>

fun response_header_loop ::
    "allow_entry list \<Rightarrow> Headers \<Rightarrow> string list \<Rightarrow> Span \<Rightarrow> regexps \<Rightarrow> Span \<times> regexps" where
  "response_header_loop allowed hs [] s h = (s, h)"
| "response_header_loop allowed hs (headerKey # ks) s h =
     (if headerKey = ''set-cookie'' then response_header_loop allowed hs ks s h
      else (case some (matches headerKey) allowed h of
              (b, h') \<Rightarrow>
                if \<not> b then response_header_loop allowed hs ks s h'
                else response_header_loop allowed hs ks
                       (setAttribute (''http.response.header.'' @ toLowerCase headerKey)
                          (Arr [of_nullable (headers_get hs headerKey)]) s) h'))"

text \<open>
  \<^verbatim>\<open>endTime += 0.01\<close> is an addition of IEEE 754 binary64 numbers, rounded to nearest with
  ties to even. The binary64 number nearest to one hundredth is \<open>5764607523034235 / 2^59\<close>.
  A clock reading \<open>x\<close> is a whole number of milliseconds below \<open>2^53\<close>, so it is a binary64
  number. For \<open>2^k \<le> x < 2^(k+1)\<close> the exact sum lies in the same binade, whose binary64
  numbers are the multiples of \<open>2^k / 2^52\<close>, that is of \<open>2^(k+7)\<close> in units of \<open>1 / 2^59\<close>;
  the sum is rounded to the nearest of them. (Zero plus the constant is the constant.
  From \<open>2^53\<close> on the binary64 numbers are at least 2 apart and the sum rounds back to
  \<open>x\<close>.)
\<close>

definition double_0_01 :: nat where
  "double_0_01 = 5764607523034235"

fun ilog2 :: "nat \<Rightarrow> nat" where
  "ilog2 n = (if n < 2 then 0 else Suc (ilog2 (n div 2)))"

declare ilog2.simps [simp del]

definition round_half_even :: "nat \<Rightarrow> nat \<Rightarrow> nat" where
  "round_half_even m u =
     (let q = m div u; r = m mod u
      in if 2 * r < u then q
         else if u < 2 * r then q + 1
         else if even q then q else q + 1)"

definition add_0_01 :: "nat \<Rightarrow> rat" where
  "add_0_01 x =
     (if x = 0 then of_nat double_0_01 / 2 ^ 59
      else if 2 ^ 53 \<le> x then of_nat x
      else (let u = 2 ^ (ilog2 x + 7)
            in of_nat (round_half_even (x * 2 ^ 59 + double_0_01) u * u) / 2 ^ 59))"

text \<open>Lines 207 to 210 and 220 to 223: the end time, from the clock reading \<open>now\<close>.\<close>

definition end_time :: "WorkerInstance \<Rightarrow> nat \<Rightarrow> rat" where
  "end_time inst now = (if startTime inst = now then add_0_01 now else of_nat now)"

text \<open>
  \<^verbatim>\<open>this.context.waitUntil(this.sdk.end())\<close>: one forced flush of the span processor, whose
  promise is handed to the execution context.
\<close>

definition flush_in_background :: "'q World \<Rightarrow> 'q World" where
  "flush_in_background w =
     w\<lparr>flush_calls := flush_calls w + 1, waitUntil_calls := waitUntil_calls w + 1\<rparr>"

text \<open>
  \<^verbatim>\<open>sendResponse\<close> gives back the response, the instance, the store of regular expressions
  and the outside, in this order.
\<close>

definition sendResponse ::
    "WorkersSDK \<Rightarrow> WorkerInstance \<Rightarrow> Response \<Rightarrow> nat \<Rightarrow> regexps \<Rightarrow> 'q World
      \<Rightarrow> Response \<times> WorkerInstance \<times> regexps \<times> 'q World" where
  "sendResponse sdk inst response now h w =
     (let s1 = setAttributes [(HTTP_STATUS_CODE, Num (status response))] (span inst)
      in case response_header_loop (allowedHeaders sdk) (headers response)
                (headers_keys (headers response)) s1 h of
           (s2, h') \<Rightarrow>
             (let s3 = span_end (end_time inst now) s2
              in (response, inst\<lparr>span := s3\<rparr>, h', flush_in_background w)))"

definition captureException ::
    "WorkerInstance \<Rightarrow> string \<Rightarrow> nat \<Rightarrow> 'q World \<Rightarrow> WorkerInstance \<times> 'q World" where
  "captureException inst ex now w =
     (let s1 = recordException ex (span inst);
          s2 = span_end (end_time inst now) s1
      in (inst\<lparr>span := s2\<rparr>, flush_in_background w))"

subsection \<open>The allow-lists in the words of the specification\<close>

text \<open>
  A pattern matches a key when the expression finds a match in it. A key is allowed iff
  it equals some string entry or matches some pattern entry; a single regular expression
  in place of the list allows what it matches.
\<close>

definition pattern_matches :: "RegExp \<Rightarrow> string \<Rightarrow> bool" where
  "pattern_matches r key = (exec_from r 0 key \<noteq> None)"

definition entry_allows :: "regexps \<Rightarrow> string \<Rightarrow> allow_entry \<Rightarrow> bool" where
  "entry_allows h key e =
     (case e of Exact allowed \<Rightarrow> key = allowed | Pattern a \<Rightarrow> pattern_matches (h a) key)"

definition search_allowed :: "regexps \<Rightarrow> allowed_search \<Rightarrow> string \<Rightarrow> bool" where
  "search_allowed h allowed key =
     (case allowed of
        OneRegExp a \<Rightarrow> pattern_matches (h a) key
      | EntryArray entries \<Rightarrow> (\<exists>e \<in> set entries. entry_allows h key e))"

text \<open>The pairs of a query that the allow-list lets through, in their order.\<close>

definition surviving ::
    "regexps \<Rightarrow> allowed_search \<Rightarrow> (string \<times> string) list \<Rightarrow> (string \<times> string) list" where
  "surviving h allowed params = filter (\<lambda>(key, val). search_allowed h allowed key) params"

text \<open>
  An allow-list none of whose regular expressions carries the \<^verbatim>\<open>g\<close> or the \<^verbatim>\<open>y\<close> flag.
\<close>

definition plain :: "RegExp \<Rightarrow> bool" where
  "plain r = (\<not> flag_g r \<and> \<not> flag_y r)"

definition plain_entries :: "regexps \<Rightarrow> allow_entry list \<Rightarrow> bool" where
  "plain_entries h entries =
     list_all (\<lambda>e. case e of Exact allowed \<Rightarrow> True | Pattern a \<Rightarrow> plain (h a)) entries"

definition plain_search :: "regexps \<Rightarrow> allowed_search \<Rightarrow> bool" where
  "plain_search h allowed =
     (case allowed of OneRegExp a \<Rightarrow> plain (h a) | EntryArray entries \<Rightarrow> plain_entries h entries)"

subsection \<open>Headers with one name removed\<close>

text \<open>
  The header list without the pairs of the given (lower-case) name: what the message
  would be had the header never been sent.
\<close>

definition without_header :: "string \<Rightarrow> Headers \<Rightarrow> Headers" where
  "without_header n h =
     (case h of Headers hl \<Rightarrow> Headers (filter (\<lambda>(k, v). toLowerCase k \<noteq> n) hl))"

subsection \<open>Requests, a scheduled event, a response and regular expressions to run the SDK on\<close>

definition example_url :: URL where
  "example_url =
     \<lparr>pathname = ''/a/b'', searchParams = [(''x'', ''1''), (''y'', ''2'')],
      host = ''svc.example'', hostname = ''svc.example'', port = [], protocol = ''https:''\<rparr>"

definition example_parse :: "string \<Rightarrow> URL option" where
  "example_parse u = (if u = ''https://svc.example/a/b?x=1&y=2'' then Some example_url else None)"

definition example_request :: Request where
  "example_request =
     \<lparr>headers = Headers [(''User-Agent'', ''UA1''), (''Cookie'', ''secret'')],
      method = ''GET'', url = ''https://svc.example/a/b?x=1&y=2''\<rparr>"

definition example_sdk :: WorkersSDK where
  "example_sdk =
     \<lparr>allowedHeaders = [Exact ''user-agent'', Exact ''cf-ray'', Exact ''cookie'',
                        Exact ''set-cookie''],
      allowedSearch = EntryArray [Exact ''x'']\<rparr>"

definition example_event :: ScheduledEvent where
  "example_event = \<lparr>cron = Some ''0 * * * *'', scheduledTime = 1700000000000\<rparr>"

definition example_response :: Response where
  "example_response =
     \<lparr>headers = Headers [(''Set-Cookie'', ''sid=1''), (''CF-Ray'', ''abc'')], status = 500\<rparr>"

text \<open>
  An expression anchored at the start of the string, \<^verbatim>\<open>/^prefix/\<close>, with the given \<^verbatim>\<open>g\<close>
  flag and \<^verbatim>\<open>lastIndex\<close> 0: it matches at index 0 only, up to the end of the prefix.
\<close>

definition anchored :: "string \<Rightarrow> bool \<Rightarrow> RegExp" where
  "anchored prefix g =
     \<lparr>exec_from = (\<lambda>i s. if i = 0 \<and> take (length prefix) s = prefix
                          then Some (length prefix) else None),
      flag_g = g, flag_y = False, lastIndex = 0\<rparr>"

text \<open>
  A store with \<^verbatim>\<open>/^x-/g\<close> at reference 0, \<^verbatim>\<open>/^x/g\<close> at reference 2, \<^verbatim>\<open>/^x/\<close> at
  reference 3 and \<^verbatim>\<open>/^cf-/\<close> at every other reference.
\<close>

definition example_regexps :: regexps where
  "example_regexps a =
     (if a = 0 then anchored ''x-'' True
      else if a = 2 then anchored ''x'' True
      else if a = 3 then anchored ''x'' False
      else anchored ''cf-'' False)"

text \<open>A request with three headers and a request with three query pairs of one key.\<close>

definition x_headers_request :: Request where
  "x_headers_request =
     \<lparr>headers = Headers [(''x-a'', ''1''), (''x-b'', ''2''), (''x-c'', ''3'')],
      method = ''GET'', url = ''https://svc.example/a/b?x=1&y=2''\<rparr>"

definition x_query_url :: URL where
  "x_query_url =
     \<lparr>pathname = ''/a'', searchParams = [(''x'', ''1''), (''x'', ''2''), (''x'', ''3'')],
      host = ''svc.example'', hostname = ''svc.example'', port = [], protocol = ''https:''\<rparr>"

definition x_query_request :: Request where
  "x_query_request =
     \<lparr>headers = Headers [], method = ''GET'', url = ''https://svc.example/a?x=1&x=2&x=3''\<rparr>"

definition x_query_parse :: "string \<Rightarrow> URL option" where
  "x_query_parse u = (if u = ''https://svc.example/a?x=1&x=2&x=3'' then Some x_query_url else None)"

definition empty_world :: "string World" where
  "empty_world = \<lparr>warnings = [], fetched = [], flush_calls = 0, waitUntil_calls = 0\<rparr>"

section \<open>Properties\<close>

subsection \<open>Auxiliary facts\<close>

lemmas attribute_keys =
  FAAS_TRIGGER_def FAAS_TIME_def FAAS_CRON_def HTTP_METHOD_def HTTP_URL_def HTTP_TARGET_def
  HTTP_HOST_def NET_HOST_NAME_def NET_HOST_PORT_def HTTP_SCHEME_def HTTP_USER_AGENT_def
  NET_PEER_IP_def HTTP_CLIENT_IP_def HTTP_STATUS_CODE_def

lemma setAttribute_fields [simp]:
  "name (setAttribute k v s) = name s"
  "kind (setAttribute k v s) = kind s"
  "is_root (setAttribute k v s) = is_root s"
  "start_time (setAttribute k v s) = start_time s"
  "exceptions (setAttribute k v s) = exceptions s"
  "end_times (setAttribute k v s) = end_times s"
  "attributes (setAttribute k v s) = (attributes s)(k \<mapsto> v)"
  by (simp_all add: setAttribute_def)

lemma startSpan_fields [simp]:
  "name (startSpan n k r t) = n"
  "kind (startSpan n k r t) = k"
  "is_root (startSpan n k r t) = r"
  "start_time (startSpan n k r t) = t"
  "exceptions (startSpan n k r t) = []"
  "end_times (startSpan n k r t) = []"
  "attributes (startSpan n k r t) = Map.empty"
  by (simp_all add: startSpan_def)

lemma span_end_fields [simp]:
  "name (span_end t s) = name s"
  "kind (span_end t s) = kind s"
  "start_time (span_end t s) = start_time s"
  "attributes (span_end t s) = attributes s"
  "exceptions (span_end t s) = exceptions s"
  "end_times (span_end t s) = end_times s @ [t]"
  by (simp_all add: span_end_def)

lemma recordException_fields [simp]:
  "name (recordException ex s) = name s"
  "kind (recordException ex s) = kind s"
  "start_time (recordException ex s) = start_time s"
  "attributes (recordException ex s) = attributes s"
  "exceptions (recordException ex s) = exceptions s @ [ex]"
  "end_times (recordException ex s) = end_times s"
  by (simp_all add: recordException_def)

lemma setAttributes_Nil [simp]: "setAttributes [] s = s"
  by (simp add: setAttributes_def)

lemma setAttributes_Cons [simp]:
  "setAttributes ((k, v) # kvs) s = setAttributes kvs (setAttribute k v s)"
  by (simp add: setAttributes_def)

lemma request_header_loop_fields [simp]:
  "name (fst (request_header_loop al hs ks s h)) = name s"
  "kind (fst (request_header_loop al hs ks s h)) = kind s"
  "is_root (fst (request_header_loop al hs ks s h)) = is_root s"
  "start_time (fst (request_header_loop al hs ks s h)) = start_time s"
  "exceptions (fst (request_header_loop al hs ks s h)) = exceptions s"
  "end_times (fst (request_header_loop al hs ks s h)) = end_times s"
  by (induction ks arbitrary: s h; simp split: prod.splits)+

lemma response_header_loop_fields [simp]:
  "name (fst (response_header_loop al hs ks s h)) = name s"
  "kind (fst (response_header_loop al hs ks s h)) = kind s"
  "is_root (fst (response_header_loop al hs ks s h)) = is_root s"
  "start_time (fst (response_header_loop al hs ks s h)) = start_time s"
  "exceptions (fst (response_header_loop al hs ks s h)) = exceptions s"
  "end_times (fst (response_header_loop al hs ks s h)) = end_times s"
  by (induction ks arbitrary: s h; simp split: prod.splits)+

lemma type_in_simps [simp]:
  "type_in Absent = Inl TypeError_in_operator"
  "type_in (Scheduled ev) = Inr True"
  "type_in (Fetch r) = Inr False"
  by (simp_all add: type_in_def)

lemma falsy_simps [simp]:
  "falsy Absent" "\<not> falsy (Scheduled ev)" "\<not> falsy (Fetch r)"
  by (simp_all add: falsy_def)

lemma getSpan_Absent: "getSpan parseURL sdk Absent now h = Inl TypeError_in_operator"
  by (simp add: getSpan_def span_name_def)

lemma getSpan_Scheduled:
  "getSpan parseURL sdk (Scheduled ev) now h =
     Inr (let s2 = setAttribute FAAS_TIME (Num (scheduledTime ev))
                     (setAttribute FAAS_TRIGGER (Str ''timer'')
                        (startSpan (''scheduled '' @ (case cron ev of Some c \<Rightarrow> c
                                      | None \<Rightarrow> number_to_string (scheduledTime ev)))
                           SERVER True now))
          in case cron ev of None \<Rightarrow> s2
             | Some c \<Rightarrow> if c \<noteq> [] then setAttribute FAAS_CRON (Str c) s2 else s2, h)"
  by (simp add: getSpan_def span_name_def span_kind_def span_attributes_def Let_def)

lemma getSpan_Fetch:
  "getSpan parseURL sdk (Fetch r) now h =
     (case parseURL (url r) of
        None \<Rightarrow> Inl TypeError_invalid_URL
      | Some u \<Rightarrow>
          Inr (request_header_loop (allowedHeaders sdk) (headers r) (headers_keys (headers r))
                 (setAttributes
                    [(HTTP_METHOD, Str (method r)),
                     (HTTP_URL, Str (url r)),
                     (HTTP_TARGET, Str (fst (target_of (allowedSearch sdk) u h))),
                     (HTTP_HOST, Str (host u)),
                     (NET_HOST_NAME, Str (hostname u)),
                     (NET_HOST_PORT, Str (port u)),
                     (HTTP_SCHEME, Str (take (length (protocol u) - 1) (protocol u))),
                     (HTTP_USER_AGENT, of_nullable (headers_get (headers r) ''user-agent'')),
                     (NET_PEER_IP, of_nullable (headers_get (headers r) ''cf-connecting-ip'')),
                     (HTTP_CLIENT_IP, of_nullable (headers_get (headers r) ''cf-connecting-ip''))]
                    (startSpan (''fetch '' @ method r @ '' '' @ pathname u) INTERNAL True now))
                 (snd (target_of (allowedSearch sdk) u h))))"
  by (simp add: getSpan_def span_name_def span_kind_def span_attributes_def Let_def
      split: option.splits prod.splits)

lemma getSpan_Fetch_Inr:
  assumes "getSpan parseURL sdk (Fetch r) now h = Inr (s, h')"
  shows "\<exists>u. parseURL (url r) = Some u \<and>
    s = fst (request_header_loop (allowedHeaders sdk) (headers r) (headers_keys (headers r))
          (setAttributes
             [(HTTP_METHOD, Str (method r)),
              (HTTP_URL, Str (url r)),
              (HTTP_TARGET, Str (fst (target_of (allowedSearch sdk) u h))),
              (HTTP_HOST, Str (host u)),
              (NET_HOST_NAME, Str (hostname u)),
              (NET_HOST_PORT, Str (port u)),
              (HTTP_SCHEME, Str (take (length (protocol u) - 1) (protocol u))),
              (HTTP_USER_AGENT, of_nullable (headers_get (headers r) ''user-agent'')),
              (NET_PEER_IP, of_nullable (headers_get (headers r) ''cf-connecting-ip'')),
              (HTTP_CLIENT_IP, of_nullable (headers_get (headers r) ''cf-connecting-ip''))]
             (startSpan (''fetch '' @ method r @ '' '' @ pathname u) INTERNAL True now))
          (snd (target_of (allowedSearch sdk) u h)))"
proof (cases "parseURL (url r)")
  case None
  with assms show ?thesis
    by (simp add: getSpan_Fetch)
next
  case (Some u)
  with assms show ?thesis
    unfolding getSpan_Fetch by (auto simp del: setAttributes_Cons)
qed

text \<open>
  A scheduled trigger never makes \<^verbatim>\<open>getSpan\<close> throw, and neither does a request whose URL
  parses.
\<close>

lemma getSpan_Scheduled_returns: "\<exists>s. getSpan parseURL sdk (Scheduled ev) now h = Inr (s, h)"
  by (simp add: getSpan_Scheduled)

lemma getSpan_Fetch_returns:
  "parseURL (url r) = Some u \<Longrightarrow> \<exists>s h'. getSpan parseURL sdk (Fetch r) now h = Inr (s, h')"
  by (simp add: getSpan_Fetch)

lemma example_parses:
  "example_parse (url example_request) = Some example_url"
  "example_parse (url x_headers_request) = Some example_url"
  "x_query_parse (url x_query_request) = Some x_query_url"
  by (simp_all add: example_parse_def example_request_def x_headers_request_def
      x_query_parse_def x_query_request_def)

lemma number_to_string_not_Nil: "number_to_string n \<noteq> []" "[] \<noteq> number_to_string n"
  by (subst number_to_string.simps, simp)+

text \<open>Where no expression carries a flag, the allow-list test is a pure disjunction.\<close>

lemma test_plain: "plain (h a) \<Longrightarrow> test a key h = (pattern_matches (h a) key, h)"
  by (simp add: test_def plain_def pattern_matches_def Let_def)

lemma matches_plain:
  "(case e of Exact allowed \<Rightarrow> True | Pattern a \<Rightarrow> plain (h a)) \<Longrightarrow>
     matches key e h = (entry_allows h key e, h)"
  by (cases e) (simp_all add: entry_allows_def test_plain)

lemma some_plain:
  "plain_entries h al \<Longrightarrow> some (matches key) al h = (\<exists>e \<in> set al. entry_allows h key e, h)"
  by (induction al) (auto simp: plain_entries_def matches_plain)

lemma entry_allows_iff:
  "entry_allows h key e \<longleftrightarrow> e = Exact key \<or> (\<exists>a. e = Pattern a \<and> pattern_matches (h a) key)"
  by (cases e) (auto simp: entry_allows_def)

lemma filter_search_plain:
  "plain_search h allowed \<Longrightarrow>
     filter_search allowed params kept h = (kept @ surviving h allowed params, h)"
  by (induction params arbitrary: kept)
     (auto simp: surviving_def search_allowed_def plain_search_def some_plain test_plain
        split: allowed_search.splits)

lemma serialize_eq_Nil: "serialize params = [] \<longleftrightarrow> params = []"
  by (cases params rule: serialize.cases) simp_all

lemma target_of_plain:
  "plain_search h allowed \<Longrightarrow>
   target_of allowed u h =
     (pathname u @ (if surviving h allowed (searchParams u) = [] then []
                    else ''?'' @ serialize (surviving h allowed (searchParams u))), h)"
  by (simp add: target_of_def Let_def filter_search_plain serialize_eq_Nil)

lemma request_header_loop_target:
  "attributes (fst (request_header_loop al hs ks s h)) ''http.target'' =
     attributes s ''http.target''"
  by (induction ks arbitrary: s h) (auto split: prod.splits)

text \<open>The names that \<^verbatim>\<open>keys()\<close> yields are in lower case.\<close>

lemma lower_char_idem: "lower_char (lower_char c) = lower_char c"
  by (simp add: lower_char_def Let_def)

lemma toLowerCase_idem: "toLowerCase (toLowerCase k) = toLowerCase k"
  by (simp add: toLowerCase_def lower_char_idem)

lemma headers_keys_lower: "k \<in> set (headers_keys hs) \<Longrightarrow> toLowerCase k = k"
  by (cases hs) (auto simp: toLowerCase_idem)

lemma request_header_loop_cookie:
  "\<forall>k \<in> set ks. toLowerCase k = k \<Longrightarrow>
   attributes (fst (request_header_loop al hs ks s h)) ''http.request.header.cookie'' =
     attributes s ''http.request.header.cookie''"
  by (induction ks arbitrary: s h) (auto split: prod.splits)

lemma response_header_loop_set_cookie:
  "\<forall>k \<in> set ks. toLowerCase k = k \<Longrightarrow>
   attributes (fst (response_header_loop al hs ks s h)) ''http.response.header.set-cookie'' =
     attributes s ''http.response.header.set-cookie''"
  by (induction ks arbitrary: s h) (auto split: prod.splits)

lemma headers_get_without:
  "toLowerCase n \<noteq> c \<Longrightarrow> headers_get (without_header c hs) n = headers_get hs n"
proof (cases hs)
  case (Headers hl)
  assume n: "toLowerCase n \<noteq> c"
  have "filter (\<lambda>(k, v). toLowerCase k = toLowerCase n) (filter (\<lambda>(k, v). toLowerCase k \<noteq> c) hl) =
        filter (\<lambda>(k, v). toLowerCase k = toLowerCase n) hl"
    using n by (induction hl) auto
  then show ?thesis
    by (simp add: Headers without_header_def)
qed

lemma headers_keys_without:
  "headers_keys (without_header c hs) = filter (\<lambda>k. k \<noteq> c) (headers_keys hs)"
proof (cases hs)
  case (Headers hl)
  have "map (\<lambda>(k, v). toLowerCase k) (filter (\<lambda>(k, v). toLowerCase k \<noteq> c) hl) =
        filter (\<lambda>k. k \<noteq> c) (map (\<lambda>(k, v). toLowerCase k) hl)"
    by (induction hl) auto
  then show ?thesis
    by (simp add: Headers without_header_def remdups_filter filter_sort)
qed

lemma request_header_loop_without:
  "\<forall>k \<in> set ks. k \<noteq> ''cookie'' \<longrightarrow> headers_get hs' k = headers_get hs k \<Longrightarrow>
   request_header_loop al hs' (filter (\<lambda>k. k \<noteq> ''cookie'') ks) s h =
     request_header_loop al hs ks s h"
  by (induction ks arbitrary: s h) (auto split: prod.splits)

lemma response_header_loop_without:
  "\<forall>k \<in> set ks. k \<noteq> ''set-cookie'' \<longrightarrow> headers_get hs' k = headers_get hs k \<Longrightarrow>
   response_header_loop al hs' (filter (\<lambda>k. k \<noteq> ''set-cookie'') ks) s h =
     response_header_loop al hs ks s h"
  by (induction ks arbitrary: s h) (auto split: prod.splits)

lemma lower_fixed:
  "toLowerCase ''user-agent'' = ''user-agent''"
  "toLowerCase ''cf-connecting-ip'' = ''cf-connecting-ip''"
  by code_simp+

lemma getSpan_without_cookie:
  "getSpan parseURL sdk (Fetch (r\<lparr>headers := without_header ''cookie'' (headers r)\<rparr>)) now h =
   getSpan parseURL sdk (Fetch r) now h"
proof -
  have "request_header_loop al (without_header ''cookie'' (headers r))
          (headers_keys (without_header ''cookie'' (headers r))) s h' =
        request_header_loop al (headers r) (headers_keys (headers r)) s h'" for al s h'
    unfolding headers_keys_without
    by (rule request_header_loop_without) (simp add: headers_get_without headers_keys_lower)
  then show ?thesis
    by (simp add: getSpan_Fetch headers_get_without lower_fixed split: option.splits)
qed

lemma sendResponse_without_set_cookie:
  "snd (sendResponse sdk inst
          (response\<lparr>headers := without_header ''set-cookie'' (headers response)\<rparr>) now h w) =
   snd (sendResponse sdk inst response now h w)"
proof -
  have "response_header_loop al (without_header ''set-cookie'' (headers response))
          (headers_keys (without_header ''set-cookie'' (headers response))) s h' =
        response_header_loop al (headers response) (headers_keys (headers response)) s h'"
    for al s h'
    unfolding headers_keys_without
    by (rule response_header_loop_without) (simp add: headers_get_without headers_keys_lower)
  then show ?thesis
    by (simp add: sendResponse_def Let_def split: prod.splits)
qed

text \<open>The components of what \<^verbatim>\<open>sendResponse\<close> gives back.\<close>

lemma sendResponse_parts:
  "fst (sendResponse sdk inst response now h w) = response"
  "fst (snd (sendResponse sdk inst response now h w)) =
     inst\<lparr>span := span_end (end_time inst now)
       (fst (response_header_loop (allowedHeaders sdk) (headers response)
          (headers_keys (headers response))
          (setAttribute HTTP_STATUS_CODE (Num (status response)) (span inst)) h))\<rparr>"
  "snd (snd (snd (sendResponse sdk inst response now h w))) = flush_in_background w"
  by (simp_all add: sendResponse_def Let_def split: prod.splits)

text \<open>The rounded sum of a clock reading and one hundredth.\<close>

lemma ilog2_le: "x < 2 ^ Suc n \<Longrightarrow> ilog2 x \<le> n"
proof (induction n arbitrary: x)
  case 0
  then show ?case by (subst ilog2.simps) simp
next
  case (Suc n)
  have "x div 2 < 2 ^ Suc n"
    using Suc.prems by simp
  then have "ilog2 (x div 2) \<le> n"
    by (rule Suc.IH)
  then show ?case
    by (subst ilog2.simps) simp
qed

lemma round_half_even_near:
  assumes "0 < u"
  shows "2 * m \<le> 2 * (round_half_even m u * u) + u"
    and "2 * (round_half_even m u * u) \<le> 2 * m + u"
proof -
  define q where "q = m div u"
  define r where "r = m mod u"
  define A where "A = q * u"
  define R where "R = round_half_even m u * u"
  have m: "m = A + r"
    by (simp add: A_def q_def r_def)
  have r: "r < u"
    using assms by (simp add: r_def)
  have rhe: "round_half_even m u =
      (if 2 * r < u then q else if u < 2 * r then q + 1 else if even q then q else q + 1)"
    by (simp add: round_half_even_def Let_def q_def r_def)
  have R: "R = A \<or> R = A + u"
    by (simp add: R_def A_def rhe)
  have down: "R = A \<Longrightarrow> 2 * r \<le> u"
    using assms by (auto simp: R_def A_def rhe split: if_splits)
  have up: "R = A + u \<Longrightarrow> u \<le> 2 * r"
    using assms by (auto simp: R_def A_def rhe split: if_splits)
  have "2 * (A + r) \<le> 2 * R + u \<and> 2 * R \<le> 2 * (A + r) + u"
    using R
  proof
    assume "R = A"
    with down show ?thesis
      by simp
  next
    assume "R = A + u"
    with up r show ?thesis
      by simp
  qed
  then show "2 * m \<le> 2 * (round_half_even m u * u) + u"
    and "2 * (round_half_even m u * u) \<le> 2 * m + u"
    by (simp_all add: R_def m)
qed

lemma add_0_01_bounds:
  assumes "x < 2 ^ 47"
  shows "of_nat x < add_0_01 x" and "add_0_01 x < of_nat x + 1"
proof -
  show "of_nat x < add_0_01 x"
  proof (cases "x = 0")
    case True
    then show ?thesis
      by (simp add: add_0_01_def double_0_01_def)
  next
    case False
    define u :: nat where "u = 2 ^ (ilog2 x + 7)"
    define R where "R = round_half_even (x * 2 ^ 59 + double_0_01) u * u"
    have "ilog2 x \<le> 46"
      using assms ilog2_le [of x 46] by simp
    then have u: "u \<le> 2 ^ 53"
      unfolding u_def by (intro power_increasing) simp_all
    have "0 < u"
      by (simp add: u_def)
    from round_half_even_near(1) [OF this, of "x * 2 ^ 59 + double_0_01"]
    have "2 * (x * 2 ^ 59 + double_0_01) \<le> 2 * R + u"
      by (simp add: R_def)
    with u have "x * 2 ^ 59 < R"
      by (simp add: double_0_01_def)
    then have "(of_nat (x * 2 ^ 59) :: rat) < of_nat R"
      by (simp only: of_nat_less_iff)
    then have "(of_nat x :: rat) < of_nat R / 2 ^ 59"
      by (simp add: pos_less_divide_eq)
    moreover have "add_0_01 x = of_nat R / 2 ^ 59"
      using False assms by (simp add: add_0_01_def R_def u_def Let_def)
    ultimately show ?thesis
      by simp
  qed
  show "add_0_01 x < of_nat x + 1"
  proof (cases "x = 0")
    case True
    then show ?thesis
      by (simp add: add_0_01_def double_0_01_def)
  next
    case False
    define u :: nat where "u = 2 ^ (ilog2 x + 7)"
    define R where "R = round_half_even (x * 2 ^ 59 + double_0_01) u * u"
    have "ilog2 x \<le> 46"
      using assms ilog2_le [of x 46] by simp
    then have u: "u \<le> 2 ^ 53"
      unfolding u_def by (intro power_increasing) simp_all
    have "0 < u"
      by (simp add: u_def)
    from round_half_even_near(2) [OF this, of "x * 2 ^ 59 + double_0_01"]
    have "2 * R \<le> 2 * (x * 2 ^ 59 + double_0_01) + u"
      by (simp add: R_def)
    with u have "R < (x + 1) * 2 ^ 59"
      by (simp add: double_0_01_def)
    then have "(of_nat R :: rat) < of_nat ((x + 1) * 2 ^ 59)"
      by (simp only: of_nat_less_iff)
    then have "(of_nat R :: rat) / 2 ^ 59 < of_nat x + 1"
      by (simp add: pos_divide_less_eq)
    moreover have "add_0_01 x = of_nat R / 2 ^ 59"
      using False assms by (simp add: add_0_01_def R_def u_def Let_def)
    ultimately show ?thesis
      by simp
  qed
qed

subsection \<open>Span construction\<close>

text \<open>
  C1. The claim asks for kind SERVER on a request trigger and kind INTERNAL on a
  scheduled trigger. The conditional on line 97 answers SERVER when the input carries
  the field \<^verbatim>\<open>type\<close>, which is the scheduled trigger, and INTERNAL otherwise: every span
  that \<^verbatim>\<open>getSpan\<close> returns for a request has kind INTERNAL and every span it returns for
  a scheduled trigger has kind SERVER, the two kinds exchanged.
\<close>

theorem getSpan_kind:
  "getSpan parseURL sdk eventOrRequest now h = Inr (s, h') \<Longrightarrow>
     kind s = (case eventOrRequest of Fetch r \<Rightarrow> INTERNAL | _ \<Rightarrow> SERVER)"
  by (cases eventOrRequest)
     (auto simp: getSpan_Absent getSpan_Scheduled Let_def split: option.splits
        dest!: getSpan_Fetch_Inr)

theorem getSpan_kind_witness:
  "(\<exists>s h'. getSpan example_parse example_sdk (Fetch example_request) 1700000000000
          example_regexps = Inr (s, h') \<and> kind s = INTERNAL) \<and>
   (\<exists>s h'. getSpan example_parse example_sdk (Scheduled example_event) 1700000000000
          example_regexps = Inr (s, h') \<and> kind s = SERVER)"
proof -
  obtain s h' where
    s: "getSpan example_parse example_sdk (Fetch example_request) 1700000000000
          example_regexps = Inr (s, h')"
    using getSpan_Fetch_returns [of example_parse example_request example_url example_sdk
        1700000000000 example_regexps, OF example_parses(1)]
    by blast
  obtain s' h'' where
    s': "getSpan example_parse example_sdk (Scheduled example_event) 1700000000000
          example_regexps = Inr (s', h'')"
    by (simp add: getSpan_Scheduled)
  from getSpan_kind [OF s] getSpan_kind [OF s'] s s' show ?thesis
    by auto
qed

text \<open>
  C6. The claim asks for an InputRequiredError exactly when the request is absent. On
  an absent input the test \<^verbatim>\<open>'type' in eventOrRequest\<close> of line 83 throws a TypeError
  before the guard of line 87 is reached, and the guard is false of every object: no
  input at all makes \<^verbatim>\<open>getSpan\<close> throw the error of line 88.
  The rest of the claim holds (\<open>getSpan_Scheduled_returns\<close>, \<open>getSpan_Fetch_returns\<close>).
\<close>

theorem getSpan_never_InputRequiredError:
  "getSpan parseURL sdk Absent now h = Inl TypeError_in_operator \<and>
   getSpan parseURL sdk eventOrRequest now h \<noteq> Inl InputRequiredError"
  by (cases eventOrRequest)
     (auto simp: getSpan_Absent getSpan_Scheduled getSpan_Fetch Let_def split: option.splits)

text \<open>
  C7, as amended. For every scheduled trigger the span name is \<^verbatim>\<open>"scheduled "\<close> followed by
  the cron expression when one is present, otherwise by the scheduled time; the span
  carries \<^verbatim>\<open>faas.trigger = "timer"\<close> and \<^verbatim>\<open>faas.time = scheduledTime\<close> always, and
  \<^verbatim>\<open>faas.cron = cron\<close> exactly when the cron expression is present and is not the empty
  string.
\<close>

theorem scheduled_span:
  "\<exists>s. getSpan parseURL sdk (Scheduled ev) now h = Inr (s, h) \<and>
     name s = ''scheduled '' @
       (case cron ev of Some c \<Rightarrow> c | None \<Rightarrow> number_to_string (scheduledTime ev)) \<and>
     attributes s FAAS_TRIGGER = Some (Str ''timer'') \<and>
     attributes s FAAS_TIME = Some (Num (scheduledTime ev)) \<and>
     attributes s FAAS_CRON =
       (case cron ev of None \<Rightarrow> None | Some c \<Rightarrow> if c = [] then None else Some (Str c))"
  by (simp add: getSpan_Scheduled Let_def attribute_keys split: option.splits)

theorem scheduled_span_witness:
  "\<exists>s. getSpan example_parse example_sdk (Scheduled example_event) 1700000000000
       example_regexps = Inr (s, example_regexps) \<and>
     name s = ''scheduled 0 * * * *'' \<and>
     attributes s ''faas.trigger'' = Some (Str ''timer'') \<and>
     attributes s ''faas.time'' = Some (Num 1700000000000) \<and>
     attributes s ''faas.cron'' = Some (Str ''0 * * * *'')"
  using scheduled_span [of example_parse example_sdk example_event 1700000000000 example_regexps]
  by (simp add: example_event_def attribute_keys)

text \<open>
  C7 as the claim states it fails on a cron expression that is present and empty: the
  attribute \<^verbatim>\<open>faas.cron\<close> is not set.
\<close>

theorem scheduled_span_counterexample:
  "cron \<lparr>cron = Some [], scheduledTime = 1700000000000\<rparr> \<noteq> None \<and>
   (case getSpan example_parse example_sdk
           (Scheduled \<lparr>cron = Some [], scheduledTime = 1700000000000\<rparr>) 1700000000000
           example_regexps of
      Inl e \<Rightarrow> False
    | Inr (s, h) \<Rightarrow> attributes s FAAS_CRON = None)"
  by (simp add: getSpan_Scheduled Let_def attribute_keys)

text \<open>
  C10. For a scheduled trigger whose cron field is present and is the empty string, the
  span name is \<^verbatim>\<open>"scheduled "\<close>, not \<^verbatim>\<open>"scheduled "\<close> followed by the scheduled time, and
  the attribute \<^verbatim>\<open>faas.cron\<close> is not set.
\<close>

theorem empty_cron:
  "cron ev = Some [] \<Longrightarrow>
   \<exists>s. getSpan parseURL sdk (Scheduled ev) now h = Inr (s, h) \<and>
     name s = ''scheduled '' \<and>
     name s \<noteq> ''scheduled '' @ number_to_string (scheduledTime ev) \<and>
     attributes s FAAS_CRON = None"
  by (simp add: getSpan_Scheduled Let_def attribute_keys number_to_string_not_Nil)

theorem empty_cron_witness:
  "\<exists>s. getSpan example_parse default_sdk
          (Scheduled \<lparr>cron = Some [], scheduledTime = 1700000000000\<rparr>) 1700000000000
          default_regexps = Inr (s, default_regexps) \<and>
     name s = ''scheduled '' \<and>
     name s \<noteq> ''scheduled 1700000000000'' \<and>
     attributes s ''faas.cron'' = None"
  using empty_cron [of "\<lparr>cron = Some [], scheduledTime = 1700000000000\<rparr>"
      example_parse default_sdk 1700000000000 default_regexps]
  by (simp add: attribute_keys number_to_string.simps digit_char_def)

text \<open>
  C2, as amended. For every request trigger (whose URL parses, as the URL of a request
  always does) and every query allow-list none of whose regular expressions carries the
  \<^verbatim>\<open>g\<close> or the \<^verbatim>\<open>y\<close> flag, the attribute \<^verbatim>\<open>http.target\<close> is the path of the URL followed by
  the serialization of exactly the query pairs whose keys pass the allow-list, in their
  original order; the \<^verbatim>\<open>?\<close> is there iff some pair survives.
\<close>

theorem http_target_filtered:
  assumes "parseURL (url r) = Some u" and "plain_search h (allowedSearch sdk)"
  shows "\<exists>s h'. getSpan parseURL sdk (Fetch r) now h = Inr (s, h') \<and>
     attributes s HTTP_TARGET =
       Some (Str (pathname u @
         (if surviving h (allowedSearch sdk) (searchParams u) = [] then []
          else ''?'' @ serialize (surviving h (allowedSearch sdk) (searchParams u)))))"
proof -
  obtain s h' where s: "getSpan parseURL sdk (Fetch r) now h = Inr (s, h')"
    using getSpan_Fetch_returns [of parseURL r u, OF assms(1)] by blast
  then have "attributes s HTTP_TARGET =
       Some (Str (pathname u @
         (if surviving h (allowedSearch sdk) (searchParams u) = [] then []
          else ''?'' @ serialize (surviving h (allowedSearch sdk) (searchParams u)))))"
    using assms
    by (auto simp: request_header_loop_target target_of_plain attribute_keys
        dest!: getSpan_Fetch_Inr)
  with s show ?thesis
    by blast
qed

theorem http_target_filtered_witness:
  "(\<exists>s h'. getSpan example_parse example_sdk (Fetch example_request) 1700000000000
          example_regexps = Inr (s, h') \<and>
        attributes s ''http.target'' = Some (Str ''/a/b?x=1'')) \<and>
   (\<exists>s h'. getSpan example_parse (example_sdk\<lparr>allowedSearch := EntryArray []\<rparr>)
          (Fetch example_request) 1700000000000 example_regexps = Inr (s, h') \<and>
        attributes s ''http.target'' = Some (Str ''/a/b'')) \<and>
   plain (example_regexps 3) \<and>
   (\<exists>s h'. getSpan x_query_parse (example_sdk\<lparr>allowedSearch := OneRegExp 3\<rparr>)
          (Fetch x_query_request) 1700000000000 example_regexps = Inr (s, h') \<and>
        attributes s ''http.target'' = Some (Str ''/a?x=1&x=2&x=3''))"
proof -
  note u = example_parses(1) and u' = example_parses(3)
  have x: "form_encode ''x'' = ''x''" "form_encode ''1'' = ''1''" "form_encode ''2'' = ''2''"
    "form_encode ''3'' = ''3''"
    by code_simp+
  have p: "plain (example_regexps 3)" "pattern_matches (example_regexps 3) ''x''"
    by (simp_all add: plain_def pattern_matches_def example_regexps_def anchored_def)
  have p1: "plain_search example_regexps (allowedSearch example_sdk)"
    and p2: "plain_search example_regexps
        (allowedSearch (example_sdk\<lparr>allowedSearch := EntryArray []\<rparr>))"
    and p3: "plain_search example_regexps
        (allowedSearch (example_sdk\<lparr>allowedSearch := OneRegExp 3\<rparr>))"
    using p by (simp_all add: plain_search_def plain_entries_def example_sdk_def)
  show ?thesis
    using
      http_target_filtered [of example_parse example_request example_url example_regexps
        example_sdk 1700000000000, OF u p1]
      http_target_filtered [of example_parse example_request example_url example_regexps
        "example_sdk\<lparr>allowedSearch := EntryArray []\<rparr>" 1700000000000, OF u p2]
      http_target_filtered [of x_query_parse x_query_request x_query_url example_regexps
        "example_sdk\<lparr>allowedSearch := OneRegExp 3\<rparr>" 1700000000000, OF u' p3]
      p
    by (simp add: x surviving_def search_allowed_def entry_allows_def example_sdk_def
        example_url_def x_query_url_def attribute_keys)
qed

text \<open>
  C2 as the claim states it fails on an allow-list with a \<^verbatim>\<open>g\<close> flag. With
  \<^verbatim>\<open>allowedSearch = /^x/g\<close> and the query \<^verbatim>\<open>x=1&x=2&x=3\<close> the key of each pair passes the
  allow-list, but the second call of \<^verbatim>\<open>test\<close> starts at \<^verbatim>\<open>lastIndex\<close> 1, fails and resets
  it: the pair \<^verbatim>\<open>x=2\<close> is missing from \<^verbatim>\<open>http.target\<close>.
\<close>

theorem http_target_filtered_counterexample:
  "search_allowed example_regexps (OneRegExp 2) ''x'' \<and>
   (case getSpan x_query_parse (example_sdk\<lparr>allowedSearch := OneRegExp 2\<rparr>)
           (Fetch x_query_request) 1700000000000 example_regexps of
      Inl e \<Rightarrow> False
    | Inr (s, h) \<Rightarrow> attributes s HTTP_TARGET = Some (Str ''/a?x=1&x=3''))"
proof -
  have allowed: "search_allowed example_regexps (OneRegExp 2) ''x''"
    by (simp add: search_allowed_def pattern_matches_def example_regexps_def anchored_def)
  have url: "searchParams x_query_url = [(''x'', ''1''), (''x'', ''2''), (''x'', ''3'')]"
    "pathname x_query_url = ''/a''"
    by (simp_all add: x_query_url_def)
  have kept: "filter_search (OneRegExp 2) (searchParams x_query_url) [] example_regexps =
      ([(''x'', ''1''), (''x'', ''3'')],
       example_regexps(2 := (anchored ''x'' True)\<lparr>lastIndex := 1\<rparr>))"
    unfolding url by (simp add: test_def example_regexps_def anchored_def Let_def)
  have enc: "form_encode ''x'' = ''x''" "form_encode ''1'' = ''1''" "form_encode ''3'' = ''3''"
    by code_simp+
  have target: "fst (target_of (OneRegExp 2) x_query_url example_regexps) = ''/a?x=1&x=3''"
    by (simp add: target_of_def Let_def enc url(2) kept)
  have "headers_keys (headers x_query_request) = []"
    by (simp add: x_query_request_def)
  then show ?thesis
    by (simp add: allowed getSpan_Fetch example_parses target attribute_keys split: prod.splits)
qed

text \<open>
  C3. Whatever the header allow-list is, \<^verbatim>\<open>getSpan\<close> sets no attribute
  \<^verbatim>\<open>http.request.header.cookie\<close>, and what it returns is what it returns for the same
  request without its cookie header; \<^verbatim>\<open>sendResponse\<close> leaves the attribute
  \<^verbatim>\<open>http.response.header.set-cookie\<close> as it finds it, and what it does to the instance, to
  the regular expressions and to the outside is what it does for the same response
  without its set-cookie header.
\<close>

theorem cookie_headers_not_recorded:
  "(getSpan parseURL sdk eventOrRequest now h = Inr (s, h') \<longrightarrow>
      attributes s ''http.request.header.cookie'' = None) \<and>
   getSpan parseURL sdk (Fetch (r\<lparr>headers := without_header ''cookie'' (headers r)\<rparr>)) now h =
     getSpan parseURL sdk (Fetch r) now h \<and>
   attributes (span (fst (snd (sendResponse sdk inst response now' h w))))
       ''http.response.header.set-cookie'' =
     attributes (span inst) ''http.response.header.set-cookie'' \<and>
   snd (sendResponse sdk inst
          (response\<lparr>headers := without_header ''set-cookie'' (headers response)\<rparr>) now' h w) =
     snd (sendResponse sdk inst response now' h w)"
proof (intro conjI impI)
  assume "getSpan parseURL sdk eventOrRequest now h = Inr (s, h')"
  then show "attributes s ''http.request.header.cookie'' = None"
    by (cases eventOrRequest)
       (auto simp: getSpan_Absent getSpan_Scheduled Let_def attribute_keys
          request_header_loop_cookie headers_keys_lower
          split: option.splits if_splits dest!: getSpan_Fetch_Inr)
next
  show "attributes (span (fst (snd (sendResponse sdk inst response now' h w))))
       ''http.response.header.set-cookie'' =
     attributes (span inst) ''http.response.header.set-cookie''"
    by (simp add: sendResponse_parts response_header_loop_set_cookie headers_keys_lower
        attribute_keys)
qed (rule getSpan_without_cookie sendResponse_without_set_cookie)+

theorem cookie_headers_not_recorded_witness:
  "\<exists>s h'. getSpan example_parse example_sdk (Fetch example_request) 1700000000000
       example_regexps = Inr (s, h') \<and>
     fst (some (matches ''cookie'') (allowedHeaders example_sdk) example_regexps) \<and>
     headers_get (headers example_request) ''cookie'' = Some ''secret'' \<and>
     attributes s ''http.request.header.cookie'' = None \<and>
     attributes s ''http.request.header.user-agent'' = Some (Arr [Str ''UA1'']) \<and>
     fst (some (matches ''set-cookie'') (allowedHeaders example_sdk) example_regexps) \<and>
     headers_get (headers example_response) ''set-cookie'' = Some ''sid=1'' \<and>
     map (attributes (span (fst (snd (sendResponse example_sdk
            \<lparr>span = s, flushed = False, startTime = 1700000000000\<rparr> example_response
            1700000000007 h' empty_world)))))
       [''http.response.header.set-cookie'', ''http.response.header.cf-ray'',
        ''http.status_code''] =
       [None, Some (Arr [Str ''abc'']), Some (Num 500)]"
proof -
  have keys: "headers_keys (headers example_request) = [''cookie'', ''user-agent'']"
    "headers_keys (headers example_response) = [''cf-ray'', ''set-cookie'']"
    by code_simp+
  have gets: "headers_get (headers example_request) ''cookie'' = Some ''secret''"
    "headers_get (headers example_request) ''user-agent'' = Some ''UA1''"
    "headers_get (headers example_response) ''set-cookie'' = Some ''sid=1''"
    "headers_get (headers example_response) ''cf-ray'' = Some ''abc''"
    by code_simp+
  have lower: "toLowerCase ''user-agent'' = ''user-agent''" "toLowerCase ''cf-ray'' = ''cf-ray''"
    by code_simp+
  have status: "status example_response = 500"
    by (simp add: example_response_def)
  obtain s h' where
    s: "getSpan example_parse example_sdk (Fetch example_request) 1700000000000
          example_regexps = Inr (s, h')"
    using getSpan_Fetch_returns [of example_parse example_request example_url example_sdk
        1700000000000 example_regexps, OF example_parses(1)]
    by blast
  define inst where "inst = \<lparr>span = s, flushed = False, startTime = 1700000000000\<rparr>"
  from getSpan_Fetch_Inr [OF s]
  have request: "attributes s ''http.request.header.user-agent'' = Some (Arr [Str ''UA1''])"
    and before: "attributes (span inst) ''http.response.header.set-cookie'' = None"
    by (auto simp: inst_def example_parses keys gets lower example_sdk_def of_nullable_def
        attribute_keys)
  have response:
    "attributes (span (fst (snd (sendResponse example_sdk inst example_response 1700000000007
        h' empty_world)))) ''http.response.header.cf-ray'' = Some (Arr [Str ''abc''])"
    "attributes (span (fst (snd (sendResponse example_sdk inst example_response 1700000000007
        h' empty_world)))) ''http.status_code'' = Some (Num 500)"
    by (simp_all add: sendResponse_parts keys gets lower example_sdk_def of_nullable_def
        attribute_keys status)
  from cookie_headers_not_recorded [where parseURL = example_parse and sdk = example_sdk
      and eventOrRequest = "Fetch example_request" and now = 1700000000000 and s = s
      and h = example_regexps and h' = h'
      and inst = inst and response = example_response and now' = 1700000000007
      and w = empty_world]
  have "attributes s ''http.request.header.cookie'' = None"
    using s by simp
  moreover
  from cookie_headers_not_recorded [where sdk = example_sdk and h = h'
      and inst = inst and response = example_response and now' = 1700000000007
      and w = empty_world]
  have "attributes (span (fst (snd (sendResponse example_sdk inst example_response
        1700000000007 h' empty_world)))) ''http.response.header.set-cookie'' = None"
    using before by simp
  ultimately show ?thesis
    using s request response
    by (auto simp: gets example_sdk_def inst_def)
qed

text \<open>
  C8, as amended. For an allow-list none of whose regular expressions carries the \<^verbatim>\<open>g\<close>
  or the \<^verbatim>\<open>y\<close> flag, a key passes iff it equals some string entry or some pattern entry
  matches it, the test leaves the regular expressions as they are, and a permutation of
  the entries does not change the answer.
\<close>

theorem allow_list_is_disjunction:
  assumes "plain_entries h allowList"
  shows "(fst (some (matches key) allowList h) \<longleftrightarrow>
      Exact key \<in> set allowList \<or>
      (\<exists>a. Pattern a \<in> set allowList \<and> pattern_matches (h a) key)) \<and>
    snd (some (matches key) allowList h) = h \<and>
    (mset allowList' = mset allowList \<longrightarrow>
       some (matches key) allowList' h = some (matches key) allowList h)"
proof (intro conjI impI)
  show "fst (some (matches key) allowList h) \<longleftrightarrow>
      Exact key \<in> set allowList \<or>
      (\<exists>a. Pattern a \<in> set allowList \<and> pattern_matches (h a) key)"
    unfolding some_plain [OF assms] fst_conv entry_allows_iff by blast
next
  show "snd (some (matches key) allowList h) = h"
    by (simp add: some_plain [OF assms])
next
  assume "mset allowList' = mset allowList"
  then have eq: "set allowList' = set allowList"
    by (rule mset_eq_setD)
  with assms have "plain_entries h allowList'"
    by (simp add: plain_entries_def list_all_iff)
  then show "some (matches key) allowList' h = some (matches key) allowList h"
    by (simp add: some_plain assms eq)
qed

theorem allow_list_is_disjunction_witness:
  "plain_entries example_regexps [Exact ''user-agent'', Pattern 7, Exact ''x''] \<and>
   pattern_matches (example_regexps 7) ''cf-ray'' \<and>
   some (matches ''cf-ray'') [Exact ''user-agent'', Pattern 7, Exact ''x''] example_regexps =
     (True, example_regexps) \<and>
   mset [Pattern 7, Exact ''x'', Exact ''user-agent''] =
     mset [Exact ''user-agent'', Pattern 7, Exact ''x''] \<and>
   some (matches ''cf-ray'') [Pattern 7, Exact ''x'', Exact ''user-agent''] example_regexps =
     (True, example_regexps) \<and>
   some (matches ''cookie'') [Pattern 7, Exact ''x'', Exact ''user-agent''] example_regexps =
     (False, example_regexps)"
proof -
  have p: "plain_entries example_regexps [Exact ''user-agent'', Pattern 7, Exact ''x'']"
    by (simp add: plain_entries_def plain_def example_regexps_def anchored_def)
  have m: "pattern_matches (example_regexps 7) ''cf-ray''"
    "\<not> pattern_matches (example_regexps 7) ''cookie''"
    by (simp_all add: pattern_matches_def example_regexps_def anchored_def)
  have perm: "mset [Pattern 7, Exact ''x'', Exact ''user-agent''] =
     mset [Exact ''user-agent'', Pattern 7, Exact ''x'']"
    by simp
  from allow_list_is_disjunction [OF p, of "''cf-ray''"
      "[Pattern 7, Exact ''x'', Exact ''user-agent'']"]
    allow_list_is_disjunction [OF p, of "''cookie''"
      "[Pattern 7, Exact ''x'', Exact ''user-agent'']"]
  have "some (matches ''cf-ray'') [Exact ''user-agent'', Pattern 7, Exact ''x''] example_regexps =
     (True, example_regexps)"
    and "some (matches ''cf-ray'') [Pattern 7, Exact ''x'', Exact ''user-agent''] example_regexps =
     (True, example_regexps)"
    and "some (matches ''cookie'') [Pattern 7, Exact ''x'', Exact ''user-agent''] example_regexps =
     (False, example_regexps)"
    using m by (auto simp: prod_eq_iff)
  with p m perm show ?thesis
    by simp
qed

text \<open>
  C8 as the claim states it fails on an allow-list with a \<^verbatim>\<open>g\<close> flag. The request has
  the headers \<^verbatim>\<open>x-a\<close>, \<^verbatim>\<open>x-b\<close>, \<^verbatim>\<open>x-c\<close> and the expression is \<^verbatim>\<open>/^x-/g\<close>, which matches
  each of the three names. With the allow-list \<^verbatim>\<open>[/^x-/g, 'x-a']\<close> the header \<^verbatim>\<open>x-b\<close> is
  not recorded: the test of \<^verbatim>\<open>x-a\<close> left \<^verbatim>\<open>lastIndex\<close> at 2. With the same entries in the
  order \<^verbatim>\<open>['x-a', /^x-/g]\<close> it is recorded.
\<close>

theorem allow_list_is_disjunction_counterexample:
  "pattern_matches (example_regexps 0) ''x-b'' \<and>
   mset [Exact ''x-a'', Pattern 0] = mset [Pattern 0, Exact ''x-a''] \<and>
   (case getSpan example_parse (example_sdk\<lparr>allowedHeaders := [Pattern 0, Exact ''x-a'']\<rparr>)
           (Fetch x_headers_request) 1700000000000 example_regexps of
      Inl e \<Rightarrow> False
    | Inr (s, h) \<Rightarrow> attributes s ''http.request.header.x-b'' = None) \<and>
   (case getSpan example_parse (example_sdk\<lparr>allowedHeaders := [Exact ''x-a'', Pattern 0]\<rparr>)
           (Fetch x_headers_request) 1700000000000 example_regexps of
      Inl e \<Rightarrow> False
    | Inr (s, h) \<Rightarrow> attributes s ''http.request.header.x-b'' = Some (Arr [Str ''2'']))"
proof -
  have m: "pattern_matches (example_regexps 0) ''x-b''"
    by (simp add: pattern_matches_def example_regexps_def anchored_def)
  have keys: "headers_keys (headers x_headers_request) = [''x-a'', ''x-b'', ''x-c'']"
    by code_simp
  have get: "headers_get (headers x_headers_request) ''x-b'' = Some ''2''"
    by code_simp
  have lower: "toLowerCase ''x-a'' = ''x-a''" "toLowerCase ''x-b'' = ''x-b''"
    "toLowerCase ''x-c'' = ''x-c''"
    by code_simp+
  have loop: "attributes (fst (request_header_loop al hs [''x-a'', ''x-b'', ''x-c''] s h))
       ''http.request.header.x-b'' =
     (if fst (some (matches ''x-b'') al (snd (some (matches ''x-a'') al h)))
      then Some (Arr [of_nullable (headers_get hs ''x-b'')])
      else attributes s ''http.request.header.x-b'')" for al hs s h
    by (simp add: lower split: prod.splits)
  have second: "\<not> fst (some (matches ''x-b'') [Pattern 0, Exact ''x-a'']
       (snd (some (matches ''x-a'') [Pattern 0, Exact ''x-a''] example_regexps)))"
    "fst (some (matches ''x-b'') [Exact ''x-a'', Pattern 0]
       (snd (some (matches ''x-a'') [Exact ''x-a'', Pattern 0] example_regexps)))"
    by (simp_all add: test_def example_regexps_def anchored_def Let_def)
  have plain: "plain_search example_regexps (EntryArray [Exact ''x''])"
    by (simp add: plain_search_def plain_entries_def)
  show ?thesis
    by (simp add: m getSpan_Fetch example_parses keys loop second get example_sdk_def
        target_of_plain [OF plain] attribute_keys of_nullable_def case_prod_unfold
        del: request_header_loop.simps some.simps matches.simps)
qed

subsection \<open>The instance\<close>

text \<open>
  C9. \<^verbatim>\<open>sendResponse\<close> returns the response it was given, with the status and the headers
  it was given.
\<close>

theorem sendResponse_returns_response:
  "fst (sendResponse sdk inst response now h w) = response \<and>
   status (fst (sendResponse sdk inst response now h w)) = status response \<and>
   headers (fst (sendResponse sdk inst response now h w)) = headers response"
  by (simp add: sendResponse_parts)

text \<open>
  C4. The claim asks for a true \<^verbatim>\<open>flushed\<close> flag after \<^verbatim>\<open>sendResponse\<close> or
  \<^verbatim>\<open>captureException\<close> and for a warning from every later \<^verbatim>\<open>fetch\<close>. No statement of the
  file assigns \<^verbatim>\<open>flushed\<close>: on an instance that \<^verbatim>\<open>start\<close> returned, the flag is still false
  after either outcome operation, and a later \<^verbatim>\<open>fetch\<close> performs the network call
  without any warning.
\<close>

theorem flushed_never_set:
  assumes "start parseURL sdk eventOrRequest t_span t_instance h0 = Inr (inst, h1)"
    and "outcome =
           (fst (snd (sendResponse sdk' inst response now h w)),
            snd (snd (snd (sendResponse sdk' inst response now h w)))) \<or>
         outcome = captureException inst ex now w"
  shows "\<not> flushed (fst outcome) \<and>
    fetch globalFetch (fst outcome) q (snd outcome) =
      (globalFetch q, (snd outcome)\<lparr>fetched := fetched (snd outcome) @ [q]\<rparr>) \<and>
    warnings (snd (fetch globalFetch (fst outcome) q (snd outcome))) = warnings w"
proof -
  from assms(1) have "\<not> flushed inst"
    by (auto simp: start_def split: sum.splits)
  with assms(2) have "\<not> flushed (fst outcome)" and "warnings (snd outcome) = warnings w"
    by (auto simp: sendResponse_parts captureException_def flush_in_background_def Let_def)
  then show ?thesis
    by (simp add: fetch_def Let_def)
qed

theorem flushed_never_set_witness:
  "\<exists>inst h1. start example_parse example_sdk (Fetch example_request) 1700000000000 1700000000000
       example_regexps = Inr (inst, h1) \<and>
     \<not> flushed (fst (snd (sendResponse example_sdk inst example_response 1700000000007 h1
                            empty_world))) \<and>
     warnings (snd (fetch (\<lambda>q. example_response)
        (fst (snd (sendResponse example_sdk inst example_response 1700000000007 h1
           empty_world)))
        ''https://svc.example/after''
        (snd (snd (snd (sendResponse example_sdk inst example_response 1700000000007 h1
           empty_world))))))
       = [] \<and>
     fetched (snd (fetch (\<lambda>q. example_response)
        (fst (snd (sendResponse example_sdk inst example_response 1700000000007 h1
           empty_world)))
        ''https://svc.example/after''
        (snd (snd (snd (sendResponse example_sdk inst example_response 1700000000007 h1
           empty_world))))))
       = [''https://svc.example/after'']"
proof -
  obtain inst h1 where
    inst: "start example_parse example_sdk (Fetch example_request) 1700000000000 1700000000000
       example_regexps = Inr (inst, h1)"
    using getSpan_Fetch_returns [of example_parse example_request example_url example_sdk
        1700000000000 example_regexps, OF example_parses(1)]
    by (auto simp: start_def)
  define outcome where "outcome =
     (fst (snd (sendResponse example_sdk inst example_response 1700000000007 h1 empty_world)),
      snd (snd (snd (sendResponse example_sdk inst example_response 1700000000007 h1
        empty_world))))"
  from flushed_never_set [where outcome = outcome and sdk' = example_sdk
      and response = example_response and now = 1700000000007 and h = h1 and w = empty_world
      and globalFetch = "\<lambda>q. example_response" and q = "''https://svc.example/after''",
      OF inst disjI1 [OF outcome_def]]
  have "\<not> flushed (fst outcome) \<and>
     warnings (snd (fetch (\<lambda>q. example_response) (fst outcome) ''https://svc.example/after''
        (snd outcome))) = [] \<and>
     fetched (snd (fetch (\<lambda>q. example_response) (fst outcome) ''https://svc.example/after''
        (snd outcome))) = [''https://svc.example/after'']"
    by (simp add: outcome_def empty_world_def sendResponse_parts flush_in_background_def)
  with inst show ?thesis
    unfolding outcome_def fst_conv snd_conv by blast
qed

text \<open>
  C5, as amended. When the start instant of the instance is below \<open>2^47\<close> milliseconds
  (the year 6429) and equals the clock reading taken inside \<^verbatim>\<open>sendResponse\<close> or
  \<^verbatim>\<open>captureException\<close>, the span is ended at the nudged time, which is strictly greater
  than the start instant and less than a millisecond after it; the duration from the
  span's own start is strictly positive when that start, read before the instance's, is
  not the later of the two.
\<close>

theorem end_after_start:
  assumes "startTime inst = now" and "now < 2 ^ 47"
  shows "end_times (span (fst (snd (sendResponse sdk inst response now h w)))) =
      end_times (span inst) @ [add_0_01 now] \<and>
    end_times (span (fst (captureException inst ex now w))) =
      end_times (span inst) @ [add_0_01 now] \<and>
    of_nat (startTime inst) < add_0_01 now \<and>
    add_0_01 now < of_nat (startTime inst) + 1 \<and>
    (start_time (span inst) \<le> startTime inst \<longrightarrow>
       0 < add_0_01 now - of_nat (start_time (span inst)))"
proof -
  have gt: "of_nat now < add_0_01 now" "add_0_01 now < of_nat now + 1"
    using assms(2) by (rule add_0_01_bounds)+
  have "(of_nat (start_time (span inst)) :: rat) \<le> of_nat now"
    if "start_time (span inst) \<le> startTime inst"
    using that assms(1) by simp
  with gt have "0 < add_0_01 now - of_nat (start_time (span inst))"
    if "start_time (span inst) \<le> startTime inst"
    using that by fastforce
  with gt assms(1) show ?thesis
    by (simp add: sendResponse_parts captureException_def end_time_def Let_def)
qed

theorem end_after_start_witness:
  "\<exists>inst. start example_parse example_sdk (Scheduled example_event) 1700000000000 1700000000000
       example_regexps = Inr (inst, example_regexps) \<and>
     end_times (span (fst (snd (sendResponse example_sdk inst example_response 1700000000000
        example_regexps empty_world)))) = [1700000000000 + 41 / 4096] \<and>
     end_times (span (fst (captureException inst ''boom'' 1700000000000 empty_world))) =
       [1700000000000 + 41 / 4096] \<and>
     start_time (span inst) = 1700000000000 \<and> startTime inst = 1700000000000 \<and>
     (1700000000000 :: nat) < 2 ^ 47 \<and>
     0 < add_0_01 1700000000000 - of_nat (start_time (span inst))"
proof -
  obtain inst where
    inst: "start example_parse example_sdk (Scheduled example_event) 1700000000000 1700000000000
       example_regexps = Inr (inst, example_regexps)"
    by (simp add: start_def getSpan_Scheduled)
  then have t: "startTime inst = 1700000000000" "start_time (span inst) = 1700000000000"
    "end_times (span inst) = []"
    by (auto simp: start_def getSpan_Scheduled Let_def example_event_def)
  have a: "add_0_01 1700000000000 = 1700000000000 + 41 / 4096"
    by (simp add: add_0_01_def ilog2.simps double_0_01_def round_half_even_def Let_def)
  from end_after_start [OF t(1), of example_sdk example_response example_regexps empty_world
      "''boom''"] inst t
  show ?thesis
    by (auto simp: a)
qed

text \<open>
  C5 as the claim states it fails from \<open>2^47\<close> milliseconds on, where the binary64 numbers
  are \<open>1/32\<close> apart and the sum with one hundredth rounds back to the start instant: the
  span is ended at its start time.
\<close>

theorem end_after_start_counterexample:
  "(case start example_parse example_sdk (Scheduled example_event)
           140737488355328 140737488355328 example_regexps of
      Inl e \<Rightarrow> False
    | Inr (inst, h) \<Rightarrow>
        startTime inst = 140737488355328 \<and>
        start_time (span inst) = 140737488355328 \<and>
        end_times (span (fst (snd (sendResponse example_sdk inst example_response
           140737488355328 h empty_world)))) = [140737488355328] \<and>
        end_times (span (fst (captureException inst ''boom'' 140737488355328 empty_world))) =
          [140737488355328])"
  by (simp add: start_def getSpan_Scheduled sendResponse_parts captureException_def end_time_def
      add_0_01_def ilog2.simps double_0_01_def round_half_even_def Let_def example_event_def)

end
